theory Spec2Isabelle
  imports Complex_Main
begin

section \<open>Numbers\<close>

text \<open>
  The Python code computes on floats. Prices, equity and percentages are modelled as
  real numbers (exact arithmetic, no rounding, no NaN); a NaN cell of the price table is
  modelled as a missing value (\<open>None\<close>). Share counts are integers.
\<close>

definition py_int :: "real \<Rightarrow> int" where
  \<comment> \<open>Python's \<open>int(x)\<close> on a float: truncation toward zero.\<close>
  "py_int x = (if 0 \<le> x then \<lfloor>x\<rfloor> else \<lceil>x\<rceil>)"

section \<open>config.py\<close>

definition MAX_POSITION_SIZE_PCT :: real where "MAX_POSITION_SIZE_PCT = 0.30"
definition MAX_RISK_PER_TRADE_PCT :: real where "MAX_RISK_PER_TRADE_PCT = 0.01"
definition MIN_STOCK_PRICE :: real where "MIN_STOCK_PRICE = 2.0"
definition MIN_AVG_DOLLAR_VOLUME :: real where "MIN_AVG_DOLLAR_VOLUME = 1000000"
definition LEVERAGE_ALLOWED :: bool where "LEVERAGE_ALLOWED = False"
definition MOMENTUM_ATR_STOP_MULT :: real where "MOMENTUM_ATR_STOP_MULT = 2.0"
definition MOMENTUM_TRAIL_R :: real where "MOMENTUM_TRAIL_R = 1.0"

section \<open>position\_sizing.py\<close>

record position_sizer =
  equity :: real
  max_position_pct :: real
  max_risk_pct :: real

datatype sizing_reason =
    No_reason  \<comment> \<open>the initial \<open>''\<close>\<close>
  | Entry_not_positive  \<comment> \<open>"Entry price must be positive"\<close>
  | Stop_not_positive  \<comment> \<open>"Stop price must be positive"\<close>
  | Stop_not_below_entry  \<comment> \<open>"Stop price must be below entry price (long only)"\<close>
  | Equity_not_positive  \<comment> \<open>"Equity must be positive"\<close>
  | Rounds_to_zero  \<comment> \<open>"Position size rounds to 0 shares (...)"\<close>
  | Position_exceeds real real  \<comment> \<open>"Position size \{position\_pct\} exceeds max \{max\_position\_pct\}"\<close>
  | Risk_exceeds real real  \<comment> \<open>"Risk \{actual\_risk\_pct\} exceeds max \{max\_risk\_pct\}"\<close>
  | OK

record sizing =
  shares :: int
  position_value :: real
  position_pct :: real
  risk_dollars :: real
  risk_pct :: real
  risk_per_share :: real
  valid :: bool
  reason :: sizing_reason

definition result0 :: sizing where
  \<comment> \<open>The dictionary \<open>result\<close> as \<open>calculate_shares\<close> initialises it.\<close>
  "result0 = \<lparr>shares = 0, position_value = 0, position_pct = 0, risk_dollars = 0,
     risk_pct = 0, risk_per_share = 0, valid = False, reason = No_reason\<rparr>"

definition calculate_shares :: "position_sizer \<Rightarrow> real \<Rightarrow> real \<Rightarrow> real option \<Rightarrow> sizing" where
  "calculate_shares self entry_price stop_price risk_pct_arg =
    (let risk_pct' = (case risk_pct_arg of None \<Rightarrow> max_risk_pct self | Some r \<Rightarrow> r);
         result = result0
     in if entry_price \<le> 0 then result\<lparr>reason := Entry_not_positive\<rparr>
        else if stop_price \<le> 0 then result\<lparr>reason := Stop_not_positive\<rparr>
        else if entry_price \<le> stop_price then result\<lparr>reason := Stop_not_below_entry\<rparr>
        else if equity self \<le> 0 then result\<lparr>reason := Equity_not_positive\<rparr>
        else
          let risk_per_share' = entry_price - stop_price;
              result = result\<lparr>risk_per_share := risk_per_share'\<rparr>;
              max_risk_dollars = equity self * risk_pct';
              shares_by_risk = py_int (max_risk_dollars / risk_per_share');
              max_position_dollars = equity self * max_position_pct self;
              shares_by_position_size = py_int (max_position_dollars / entry_price);
              shares' = min shares_by_risk shares_by_position_size
          in if shares' < 1 then result\<lparr>reason := Rounds_to_zero\<rparr>
             else
               let position_value' = of_int shares' * entry_price;
                   position_pct' = position_value' / equity self;
                   risk_dollars' = of_int shares' * risk_per_share';
                   actual_risk_pct = risk_dollars' / equity self
               in if position_pct' > max_position_pct self
                  then result\<lparr>reason := Position_exceeds position_pct' (max_position_pct self)\<rparr>
                  else if actual_risk_pct > max_risk_pct self
                  then result\<lparr>reason := Risk_exceeds actual_risk_pct (max_risk_pct self)\<rparr>
                  else result\<lparr>shares := shares', position_value := position_value',
                         position_pct := position_pct', risk_dollars := risk_dollars',
                         risk_pct := actual_risk_pct, valid := True, reason := OK\<rparr>)"

section \<open>backtest.py\<close>

text \<open>
  A row of the price table: its index label (the timestamp) and the columns the simulator
  reads. \<open>atr_14\<close> is \<open>None\<close> when the column is absent or NaN; \<open>entry\<close>, \<open>stop\<close> and
  \<open>target\<close> are \<open>None\<close> when NaN. The table is the list of its rows, in order; its index
  labels are taken to be unique, so that \<open>df.loc[entry_idx:]\<close> is the part of the table
  from the row labelled \<open>entry_idx\<close> on.
\<close>

record bar =
  idx :: int
  high :: real
  low :: real
  close :: real
  atr_14 :: "real option"
  signal :: int
  entry :: "real option"
  stop :: "real option"
  target :: "real option"

type_synonym data_frame = "bar list"

text \<open>
  A strategy either has a \<open>check_exit\<close> method or not (\<open>hasattr(strategy, 'check_exit')\<close>).
  The method is a function of its four arguments \<open>(entry_price, current_price, current_atr,
  original_stop)\<close>, as in both strategies of the repository, and returns
  \<open>(should_exit, new_stop, reason)\<close>.
\<close>

type_synonym check_exit = "real \<Rightarrow> real \<Rightarrow> real \<Rightarrow> real \<Rightarrow> bool \<times> real \<times> string"
type_synonym strategy = "check_exit option"

type_synonym exit_info = "int \<times> real \<times> string"  \<comment> \<open>\<open>(exit_idx, exit_price, exit_reason)\<close>\<close>
type_synonym call_args = "real \<times> real \<times> real \<times> real"

record backtester =
  initial_capital :: real
  commission :: real
  slippage_pct :: real

datatype py_error = ZeroDivisionError | IndexError

definition Backtester_init :: "real \<Rightarrow> real \<Rightarrow> real \<Rightarrow> py_error + backtester" where
  \<comment> \<open>\<open>Backtester.__init__\<close>: three assignments, no check, so no error branch is ever taken.\<close>
  "Backtester_init initial_capital' commission' slippage_pct' =
     Inr \<lparr>initial_capital = initial_capital', commission = commission',
          slippage_pct = slippage_pct'\<rparr>"

definition exit_step ::
  "strategy \<Rightarrow> real \<Rightarrow> real \<Rightarrow> real \<Rightarrow> real \<Rightarrow> bar \<Rightarrow> call_args option \<times> (exit_info + real)" where
  \<comment> \<open>One iteration of the loop of \<open>_find_exit\<close> on the row \<open>b\<close>, entered with \<open>current_stop\<close>:
      the arguments of the \<open>check_exit\<close> call it makes (if it makes one), and either the
      tuple it returns (\<open>Inl\<close>) or the \<open>current_stop\<close> it leaves for the next row (\<open>Inr\<close>).\<close>
  "exit_step strategy entry_price stop_price target_price current_stop b =
    (let current_price = close b;
         current_atr = (case atr_14 b of Some a \<Rightarrow> a | None \<Rightarrow> 0)
     in if high b \<ge> target_price then (None, Inl (idx b, target_price, ''target''))
        else if low b \<le> current_stop then (None, Inl (idx b, current_stop, ''stop''))
        else (case strategy of
                None \<Rightarrow> (None, Inr current_stop)
              | Some check_exit \<Rightarrow>
                  let args = (entry_price, current_price, current_atr, stop_price)
                  in (case (case args of (a1, a2, a3, a4) \<Rightarrow> check_exit a1 a2 a3 a4) of
                        (should_exit, new_stop, reason') \<Rightarrow>
                          let current_stop' = max current_stop new_stop
                          in if should_exit then (Some args, Inl (idx b, current_price, reason'))
                             else (Some args, Inr current_stop'))))"

fun find_exit_loop ::
  "strategy \<Rightarrow> real \<Rightarrow> real \<Rightarrow> real \<Rightarrow> real \<Rightarrow> bar list \<Rightarrow> exit_info + real" where
  \<comment> \<open>The \<open>for\<close> loop of \<open>_find_exit\<close> over the rows left: the tuple returned inside the loop,
      or the \<open>current_stop\<close> with which the loop falls through.\<close>
  "find_exit_loop strategy entry_price stop_price target_price current_stop [] = Inr current_stop"
| "find_exit_loop strategy entry_price stop_price target_price current_stop (b # future) =
     (case snd (exit_step strategy entry_price stop_price target_price current_stop b) of
        Inl exit \<Rightarrow> Inl exit
      | Inr current_stop' \<Rightarrow>
          find_exit_loop strategy entry_price stop_price target_price current_stop' future)"

definition future_data :: "data_frame \<Rightarrow> int \<Rightarrow> bar list" where
  \<comment> \<open>\<open>df.loc[entry_idx:].iloc[1:]\<close>\<close>
  "future_data df entry_idx = drop 1 (dropWhile (\<lambda>b. idx b \<noteq> entry_idx) df)"

definition find_exit ::
  "data_frame \<Rightarrow> int \<Rightarrow> real \<Rightarrow> real \<Rightarrow> real \<Rightarrow> strategy \<Rightarrow> exit_info option" where
  "find_exit df entry_idx entry_price stop_price target_price strategy =
     (case find_exit_loop strategy entry_price stop_price target_price stop_price
             (future_data df entry_idx) of
        Inl exit \<Rightarrow> Some exit
      | Inr _ \<Rightarrow> None)"

fun stops_evaluated :: "strategy \<Rightarrow> real \<Rightarrow> real \<Rightarrow> real \<Rightarrow> real \<Rightarrow> bar list \<Rightarrow> real list" where
  \<comment> \<open>The value of \<open>current_stop\<close> with which each iteration of the loop of \<open>_find_exit\<close>
      is entered, one per row the loop reaches.\<close>
  "stops_evaluated strategy entry_price stop_price target_price current_stop [] = []"
| "stops_evaluated strategy entry_price stop_price target_price current_stop (b # future) =
     current_stop #
     (case snd (exit_step strategy entry_price stop_price target_price current_stop b) of
        Inl exit \<Rightarrow> []
      | Inr current_stop' \<Rightarrow>
          stops_evaluated strategy entry_price stop_price target_price current_stop' future)"

fun check_exit_calls ::
  "strategy \<Rightarrow> real \<Rightarrow> real \<Rightarrow> real \<Rightarrow> real \<Rightarrow> bar list \<Rightarrow> (real \<times> call_args) list" where
  \<comment> \<open>The calls of \<open>check_exit\<close> the loop of \<open>_find_exit\<close> makes, in order: the
      \<open>current_stop\<close> at the row of the call, and the arguments passed.\<close>
  "check_exit_calls strategy entry_price stop_price target_price current_stop [] = []"
| "check_exit_calls strategy entry_price stop_price target_price current_stop (b # future) =
     (case exit_step strategy entry_price stop_price target_price current_stop b of
        (c, out) \<Rightarrow>
          (case c of None \<Rightarrow> [] | Some args \<Rightarrow> [(current_stop, args)]) @
          (case out of
             Inl exit \<Rightarrow> []
           | Inr current_stop' \<Rightarrow>
               check_exit_calls strategy entry_price stop_price target_price current_stop' future))"

definition passes_current_stop :: "real \<times> call_args \<Rightarrow> bool" where
  \<comment> \<open>The fourth argument of the call is the \<open>current_stop\<close> at that row.\<close>
  "passes_current_stop c = (case c of (current_stop, a1, a2, a3, a4) \<Rightarrow> a4 = current_stop)"

definition passes_stop :: "real \<Rightarrow> real \<times> call_args \<Rightarrow> bool" where
  \<comment> \<open>The fourth argument of the call is the given stop.\<close>
  "passes_stop stop_price c = (case c of (current_stop, a1, a2, a3, a4) \<Rightarrow> a4 = stop_price)"

record trade =
  t_entry_date :: int
  t_exit_date :: int
  t_entry_price :: real
  t_exit_price :: real
  t_shares :: int
  t_position_value :: real
  t_stop_price :: real
  t_target_price :: real
  t_gross_pnl :: real
  t_commission :: real
  t_slippage :: real
  t_net_pnl :: real
  t_return_pct :: real
  t_r_multiple :: real
  t_exit_reason :: string
  t_equity_after :: real

definition process_signal :: "backtester \<Rightarrow> data_frame \<Rightarrow> strategy \<Rightarrow> real \<Rightarrow> bar \<Rightarrow> trade option" where
  \<comment> \<open>The body of the loop of \<open>_execute_trades\<close> for one signal row, with the running
      \<open>equity\<close>: \<open>None\<close> where the body ends in \<open>continue\<close>, the appended record otherwise.
      The divisions are by \<open>position_value\<close>, positive once the sizing is valid, and by
      \<open>risk\<close>, guarded.\<close>
  "process_signal self df strategy equity' row =
    (case (entry row, stop row, target row) of
       (Some entry_price, Some stop_price, Some target_price) \<Rightarrow>
         let entry_price_actual = entry_price * (1 + slippage_pct self);
             sizer = \<lparr>equity = equity', max_position_pct = MAX_POSITION_SIZE_PCT,
                       max_risk_pct = MAX_RISK_PER_TRADE_PCT\<rparr>;
             sizing = calculate_shares sizer entry_price_actual stop_price None
         in if \<not> valid sizing then None
            else
              let shares' = shares sizing;
                  position_value' = of_int shares' * entry_price_actual;
                  entry_commission = commission self
              in (case find_exit df (idx row) entry_price_actual stop_price target_price strategy of
                    None \<Rightarrow> None
                  | Some (exit_idx, exit_price, exit_reason) \<Rightarrow>
                      let exit_price_actual = exit_price * (1 - slippage_pct self);
                          exit_commission = commission self;
                          gross_pnl = of_int shares' * (exit_price_actual - entry_price_actual);
                          costs = entry_commission + exit_commission;
                          net_pnl = gross_pnl - costs;
                          equity'' = equity' + net_pnl;
                          risk = entry_price_actual - stop_price;
                          r_multiple = (if risk > 0
                                        then (exit_price_actual - entry_price_actual) / risk else 0)
                      in Some \<lparr>t_entry_date = idx row, t_exit_date = exit_idx,
                               t_entry_price = entry_price_actual, t_exit_price = exit_price_actual,
                               t_shares = shares', t_position_value = position_value',
                               t_stop_price = stop_price, t_target_price = target_price,
                               t_gross_pnl = gross_pnl, t_commission = costs,
                               t_slippage = of_int shares' * entry_price * slippage_pct self * 2,
                               t_net_pnl = net_pnl, t_return_pct = net_pnl / position_value',
                               t_r_multiple = r_multiple, t_exit_reason = exit_reason,
                               t_equity_after = equity''\<rparr>)
     | _ \<Rightarrow> None)"

fun execute_loop :: "backtester \<Rightarrow> data_frame \<Rightarrow> strategy \<Rightarrow> real \<Rightarrow> bar list \<Rightarrow> trade list" where
  \<comment> \<open>The loop over the signal rows: the records appended to \<open>trades\<close>, the running equity
      being that of the last record appended.\<close>
  "execute_loop self df strategy equity' [] = []"
| "execute_loop self df strategy equity' (row # signals) =
     (case process_signal self df strategy equity' row of
        None \<Rightarrow> execute_loop self df strategy equity' signals
      | Some t \<Rightarrow> t # execute_loop self df strategy (t_equity_after t) signals)"

definition execute_trades :: "backtester \<Rightarrow> data_frame \<Rightarrow> strategy \<Rightarrow> trade list" where
  "execute_trades self df strategy =
     execute_loop self df strategy (initial_capital self) (filter (\<lambda>b. signal b = 1) df)"


definition run_on :: "real \<Rightarrow> real \<Rightarrow> real \<Rightarrow> data_frame \<Rightarrow> strategy \<Rightarrow> py_error + trade list" where
  \<comment> \<open>Constructing a \<open>Backtester\<close> and executing the trades of a table that already carries
      its signals: the part of \<open>run\<close> between signal generation and the metrics.\<close>
  "run_on initial_capital' commission' slippage_pct' df strategy =
     (case Backtester_init initial_capital' commission' slippage_pct' of
        Inl e \<Rightarrow> Inl e
      | Inr self \<Rightarrow> Inr (execute_trades self df strategy))"

type_synonym series = "(int \<times> real) list"  \<comment> \<open>a pandas Series: labels and values, in order\<close>

definition calculate_equity_curve :: "backtester \<Rightarrow> trade list \<Rightarrow> series" where
  "calculate_equity_curve self trades =
     (case trades of
        [] \<Rightarrow> [(0, initial_capital self)]
      | t0 # _ \<Rightarrow> (t_entry_date t0, initial_capital self)
                  # map (\<lambda>t. (t_exit_date t, t_equity_after t)) trades)"

text \<open>
  The drawdown lines of \<open>_calculate_metrics\<close>. A Series is the list of its (label, value)
  pairs. \<open>cummax\<close> keeps the labels; the difference of two Series with the same index is
  taken position by position; \<open>idxmax\<close> is the label of the first greatest value;
  \<open>running_max[label]\<close> is a number when one row has that label and a Series when several
  have. The quotient is a numpy float: a positive number divided by zero is \<open>inf\<close>.
\<close>

fun cummax_from :: "real \<Rightarrow> series \<Rightarrow> series" where
  "cummax_from m [] = []"
| "cummax_from m ((l, v) # s) = (l, max m v) # cummax_from (max m v) s"

definition cummax :: "series \<Rightarrow> series" where
  "cummax s = (case s of [] \<Rightarrow> [] | (l, v) # rest \<Rightarrow> (l, v) # cummax_from v rest)"

definition series_minus :: "series \<Rightarrow> series \<Rightarrow> series" where
  "series_minus a b = map (\<lambda>((l, x), (_, y)). (l, x - y)) (zip a b)"

definition series_max :: "series \<Rightarrow> real" where
  \<comment> \<open>\<open>s.max()\<close> of a Series that is not empty.\<close>
  "series_max s = fold max (map snd (tl s)) (snd (hd s))"

definition idxmax :: "series \<Rightarrow> int" where
  \<comment> \<open>\<open>s.idxmax()\<close> of a Series that is not empty.\<close>
  "idxmax s = fst (hd (filter (\<lambda>(l, v). v = series_max s) s))"

definition series_loc :: "series \<Rightarrow> int \<Rightarrow> real list" where
  \<comment> \<open>The values of the rows labelled \<open>label\<close>.\<close>
  "series_loc s label = map snd (filter (\<lambda>(l, v). l = label) s)"

datatype pct_value = Finite real | Infinity | Not_scalar

definition max_drawdown_metrics :: "series \<Rightarrow> py_error + real \<times> pct_value" where
  \<comment> \<open>\<open>(max_drawdown, max_drawdown_pct)\<close> as \<open>_calculate_metrics\<close> computes them from the
      equity curve; on an empty curve \<open>equity_curve.iloc[-1]\<close> has raised before.\<close>
  "max_drawdown_metrics equity_curve =
    (if equity_curve = [] then Inl IndexError
     else
       let running_max = cummax equity_curve;
           drawdown = series_minus running_max equity_curve;
           max_drawdown = series_max drawdown;
           max_drawdown_pct =
             (if max_drawdown > 0
              then (case series_loc running_max (idxmax drawdown) of
                      [r] \<Rightarrow> if r = 0 then Infinity else Finite (max_drawdown / r)
                    | _ \<Rightarrow> Not_scalar)
              else Finite 0)
       in Inr (max_drawdown, max_drawdown_pct))"



section \<open>risk.py\<close>

text \<open>
  A position is a dictionary with a \<open>symbol\<close> and possibly a \<open>market_value\<close>; the liquidity
  information is an optional dictionary, given as the list of its items. The risk manager
  has the three fields of the position sizer and \<open>max_positions\<close>. The messages carry
  formatted numbers, so each one is a constructor with the numbers it shows.
\<close>

record position =
  symbol :: string
  market_value :: "real option"

record risk_manager = position_sizer +
  max_positions :: int

datatype risk_reason =
    Max_positions_reached int nat  \<comment> \<open>"Max positions (..) reached. Currently holding .."\<close>
  | Position_size_exceeds real real  \<comment> \<open>"Position size .. exceeds max .."\<close>
  | Risk_too_high real real  \<comment> \<open>"Risk .. exceeds max .."\<close>
  | Price_below_minimum real real  \<comment> \<open>"Price \$.. below minimum \$.."\<close>
  | Volume_below_minimum real real  \<comment> \<open>"Avg dollar volume \$.. below minimum \$.."\<close>
  | Exposure_exceeds_equity real real  \<comment> \<open>"Total exposure \$.. would exceed equity \$.. (...)"\<close>
  | Already_have_position string  \<comment> \<open>"Already have position in .."\<close>
  | All_risk_checks_passed  \<comment> \<open>"All risk checks passed"\<close>

definition fail :: "bool \<times> risk_reason list \<Rightarrow> risk_reason \<Rightarrow> bool \<times> risk_reason list" where
  \<comment> \<open>\<open>approved = False; reasons.append(r)\<close> on the pair \<open>(approved, reasons)\<close>.\<close>
  "fail st r = (False, snd st @ [r])"

definition has_symbol :: "string \<Rightarrow> position list \<Rightarrow> bool" where
  \<comment> \<open>\<open>any(p['symbol'] == symbol for p in current_positions)\<close>\<close>
  "has_symbol symbol' current_positions = list_ex (\<lambda>p. symbol p = symbol') current_positions"

definition total_market_value :: "position list \<Rightarrow> real" where
  \<comment> \<open>\<open>sum(p.get('market_value', 0) for p in current_positions)\<close>\<close>
  "total_market_value current_positions =
     sum_list (map (\<lambda>p. case market_value p of None \<Rightarrow> 0 | Some v \<Rightarrow> v) current_positions)"

definition avg_dollar_volume :: "(string \<times> real) list \<Rightarrow> real" where
  \<comment> \<open>\<open>liquidity_check.get('avg_dollar_volume', 0)\<close>\<close>
  "avg_dollar_volume d = (case map_of d ''avg_dollar_volume'' of None \<Rightarrow> 0 | Some v \<Rightarrow> v)"

definition check_pre_trade ::
  "risk_manager \<Rightarrow> string \<Rightarrow> real \<Rightarrow> real \<Rightarrow> real \<Rightarrow> position list
   \<Rightarrow> (string \<times> real) list option \<Rightarrow> py_error + bool \<times> risk_reason list" where
  \<comment> \<open>The pair \<open>st\<close> is \<open>(approved, reasons)\<close>, passed from check to check. The first
      division, \<open>position_value / self.equity\<close>, raises when the equity is zero.\<close>
  "check_pre_trade self symbol' entry_price position_value' risk_dollars' current_positions
     liquidity_check =
    (let st = (True, []);
         st = (if int (length current_positions) \<ge> max_positions self
               then if \<not> has_symbol symbol' current_positions
                    then fail st (Max_positions_reached (max_positions self)
                                    (length current_positions))
                    else st
               else st)
     in if equity self = 0 then Inl ZeroDivisionError
        else
          let position_pct' = position_value' / equity self;
              st = (if position_pct' > max_position_pct self
                    then fail st (Position_size_exceeds position_pct' (max_position_pct self))
                    else st);
              risk_pct' = risk_dollars' / equity self;
              st = (if risk_pct' > max_risk_pct self
                    then fail st (Risk_too_high risk_pct' (max_risk_pct self))
                    else st);
              st = (if entry_price < MIN_STOCK_PRICE
                    then fail st (Price_below_minimum entry_price MIN_STOCK_PRICE)
                    else st);
              st = (case liquidity_check of
                      None \<Rightarrow> st
                    | Some [] \<Rightarrow> st
                    | Some d \<Rightarrow>
                        let avg_volume = avg_dollar_volume d
                        in if avg_volume < MIN_AVG_DOLLAR_VOLUME
                           then fail st (Volume_below_minimum avg_volume MIN_AVG_DOLLAR_VOLUME)
                           else st);
              st = (if \<not> LEVERAGE_ALLOWED
                    then let total_exposure = total_market_value current_positions + position_value'
                         in if total_exposure > equity self * 1.01
                            then fail st (Exposure_exceeds_equity total_exposure (equity self))
                            else st
                    else st);
              st = (if has_symbol symbol' current_positions
                    then fail st (Already_have_position symbol')
                    else st)
          in Inr (if fst st then (True, snd st @ [All_risk_checks_passed]) else st))"



section \<open>strategies/momentum.py\<close>

definition momentum_check_exit :: "real \<Rightarrow> check_exit" where
  \<comment> \<open>\<open>MomentumStrategy.check_exit\<close>, for a strategy with the given \<open>atr_stop_mult\<close>.\<close>
  "momentum_check_exit atr_stop_mult entry_price current_price current_atr original_stop =
    (let risk = entry_price - original_stop;
         profit = current_price - entry_price;
         r_multiple = (if risk > 0 then profit / risk else 0);
         new_stop = (if r_multiple \<ge> 1.0 then entry_price else original_stop);
         new_stop = (if r_multiple \<ge> MOMENTUM_TRAIL_R
                     then max new_stop (current_price - current_atr * atr_stop_mult)
                     else new_stop);
         should_exit = (current_price \<le> new_stop)
     in (should_exit, new_stop, if should_exit then ''Stop hit'' else ''Holding''))"

definition momentum :: strategy where
  "momentum = Some (momentum_check_exit MOMENTUM_ATR_STOP_MULT)"

section \<open>Sample tables\<close>

definition plain_bar :: "int \<Rightarrow> real \<Rightarrow> real \<Rightarrow> real \<Rightarrow> real option \<Rightarrow> bar" where
  "plain_bar i h l c a = \<lparr>idx = i, high = h, low = l, close = c, atr_14 = a, signal = 0,
     entry = None, stop = None, target = None\<rparr>"

definition signal_bar :: "int \<Rightarrow> real \<Rightarrow> real \<Rightarrow> real \<Rightarrow> real \<Rightarrow> real \<Rightarrow> real \<Rightarrow> bar" where
  "signal_bar i h l c e s t = \<lparr>idx = i, high = h, low = l, close = c, atr_14 = None, signal = 1,
     entry = Some e, stop = Some s, target = Some t\<rparr>"

definition two_signals :: data_frame where
  \<comment> \<open>Signals on two consecutive rows; the third row reaches the target of both.\<close>
  "two_signals = [signal_bar 0 101 99 100 100 95 110, signal_bar 1 102 99 101 100 95 110,
                  plain_bar 2 112 100 111 None]"

definition both_hit :: data_frame where
  \<comment> \<open>The row after the entry row reaches the target and falls through the stop.\<close>
  "both_hit = [signal_bar 0 101 99 100 100 95 110, plain_bar 1 120 90 100 None]"

definition never_exits :: data_frame where
  \<comment> \<open>The first signal reaches neither its target nor its stop before the table ends; the
      second one reaches its target on the last row.\<close>
  "never_exits = [signal_bar 0 101 99 100 100 95 110, signal_bar 1 104 98 101 100 95 105,
                  plain_bar 2 106 99 105 None]"

definition trailing :: "bar list" where
  \<comment> \<open>Four rows after an entry at 100 with stop 90 and target 120: the price gains more than
      1R on the first two and falls back under 1R on the last two; neither the target nor
      the stop is reached.\<close>
  "trailing = [plain_bar 1 111 105 110 (Some 3), plain_bar 2 113 107 112 (Some 3),
               plain_bar 3 109 107 108 (Some 3), plain_bar 4 109 107 108 (Some 3)]"




definition default_backtester :: backtester where
  "default_backtester = \<lparr>initial_capital = 25000, commission = 1, slippage_pct = 0.001\<rparr>"

section \<open>Properties of the position sizer\<close>











section \<open>Properties of the exit search\<close>

lemmas sample_defs = two_signals_def both_hit_def never_exits_def trailing_def plain_bar_def
  signal_bar_def default_backtester_def momentum_def momentum_check_exit_def
  MOMENTUM_ATR_STOP_MULT_def MOMENTUM_TRAIL_R_def MAX_POSITION_SIZE_PCT_def
  MAX_RISK_PER_TRADE_PCT_def

lemma exit_step_raises_stop:
  "snd (exit_step strategy entry_price stop_price target_price current_stop b) = Inr c
   \<Longrightarrow> current_stop \<le> c"
  by (auto simp: exit_step_def Let_def split: if_splits option.splits prod.splits)

lemma find_exit_loop_append:
  "find_exit_loop strategy entry_price stop_price target_price current_stop pre = Inr c
   \<Longrightarrow> find_exit_loop strategy entry_price stop_price target_price current_stop (pre @ rest)
       = find_exit_loop strategy entry_price stop_price target_price c rest"
  by (induction pre arbitrary: current_stop) (auto split: sum.splits)

lemma stops_evaluated_lower_bound:
  "c \<in> set (stops_evaluated strategy entry_price stop_price target_price current_stop future)
   \<Longrightarrow> current_stop \<le> c"
proof (induction future arbitrary: current_stop)
  case Nil
  then show ?case by simp
next
  case (Cons b future)
  show ?case
  proof (cases "snd (exit_step strategy entry_price stop_price target_price current_stop b)")
    case (Inl e)
    with Cons.prems show ?thesis by simp
  next
    case (Inr c')
    then have "current_stop \<le> c'" by (rule exit_step_raises_stop)
    moreover from Cons.prems Inr have "c = current_stop \<or> c' \<le> c"
      using Cons.IH [of c'] by auto
    ultimately show ?thesis by auto
  qed
qed

lemma stops_evaluated_nth:
  "i < length (stops_evaluated strategy entry_price stop_price target_price current_stop future)
   \<Longrightarrow> find_exit_loop strategy entry_price stop_price target_price current_stop (take i future)
       = Inr (stops_evaluated strategy entry_price stop_price target_price current_stop future ! i)"
proof (induction future arbitrary: current_stop i)
  case Nil
  then show ?case by simp
next
  case (Cons b future)
  show ?case
  proof (cases i)
    case 0
    then show ?thesis by simp
  next
    case (Suc j)
    with Cons.prems Cons.IH show ?thesis
      by (auto split: sum.splits)
  qed
qed

text \<open>
  C2. Let the trade be still open after the rows \<open>pre\<close> that follow its entry row, with
  \<open>current_stop\<close> the stop reached there, and let \<open>b\<close> be the next row. If the high of \<open>b\<close>
  is at or above the target, the trade exits on \<open>b\<close> at the target price with reason
  \<open>target\<close>, whatever the low of \<open>b\<close> is; otherwise, if the low of \<open>b\<close> is at or below
  \<open>current_stop\<close>, it exits at \<open>current_stop\<close> with reason \<open>stop\<close>; otherwise the exit policy,
  if there is one, is asked, and the search goes on with the rows after \<open>b\<close> unless the
  policy exits at the close of \<open>b\<close>.
\<close>

theorem exit_priority:
  assumes "future_data df entry_idx = pre @ b # rest"
    and "find_exit_loop strategy entry_price stop_price target_price stop_price pre = Inr current_stop"
  shows "find_exit df entry_idx entry_price stop_price target_price strategy =
    (if high b \<ge> target_price then Some (idx b, target_price, ''target'')
     else if low b \<le> current_stop then Some (idx b, current_stop, ''stop'')
     else (case strategy of
             None \<Rightarrow>
               (case find_exit_loop strategy entry_price stop_price target_price current_stop rest of
                  Inl exit \<Rightarrow> Some exit | Inr _ \<Rightarrow> None)
           | Some check_exit \<Rightarrow>
               (case check_exit entry_price (close b) (case atr_14 b of Some a \<Rightarrow> a | None \<Rightarrow> 0)
                       stop_price of
                  (should_exit, new_stop, why) \<Rightarrow>
                    if should_exit then Some (idx b, close b, why)
                    else (case find_exit_loop strategy entry_price stop_price target_price
                                 (max current_stop new_stop) rest of
                            Inl exit \<Rightarrow> Some exit | Inr _ \<Rightarrow> None))))"
proof -
  have "find_exit_loop strategy entry_price stop_price target_price stop_price (pre @ b # rest)
        = find_exit_loop strategy entry_price stop_price target_price current_stop (b # rest)"
    using assms(2) by (rule find_exit_loop_append)
  then show ?thesis
    by (simp add: find_exit_def assms(1) exit_step_def Let_def split: option.splits prod.splits)
qed

theorem exit_priority_witness:
  "future_data both_hit 0 = [] @ plain_bar 1 120 90 100 None # []
   \<and> find_exit_loop None 100 95 110 95 [] = Inr 95
   \<and> high (plain_bar 1 120 90 100 None) \<ge> 110 \<and> low (plain_bar 1 120 90 100 None) \<le> 95
   \<and> find_exit both_hit 0 100 95 110 None = Some (1, 110, ''target'')"
proof -
  have f: "future_data both_hit 0 = [] @ plain_bar 1 120 90 100 None # []"
    by (simp add: future_data_def both_hit_def signal_bar_def)
  have l: "find_exit_loop None 100 95 110 95 [] = Inr 95" by simp
  show ?thesis
    using exit_priority [OF f l] f l by (simp add: plain_bar_def)
qed

text \<open>
  C3. For every exit policy, whatever \<open>new_stop\<close> it returns, the values of \<open>current_stop\<close>
  with which the rows of one trade are evaluated, in order, never decrease.
\<close>

theorem current_stop_never_lowered:
  "sorted (stops_evaluated strategy entry_price stop_price target_price current_stop future)"
proof (induction future arbitrary: current_stop)
  case Nil
  show ?case by simp
next
  case (Cons b future)
  show ?case
  proof (cases "snd (exit_step strategy entry_price stop_price target_price current_stop b)")
    case (Inl e)
    then show ?thesis by simp
  next
    case (Inr c')
    then have "current_stop \<le> c'" by (rule exit_step_raises_stop)
    then have "\<forall>c \<in> set (stops_evaluated strategy entry_price stop_price target_price c' future).
                 current_stop \<le> c"
      using stops_evaluated_lower_bound by fastforce
    with Inr Cons.IH [of c'] show ?thesis by simp
  qed
qed

theorem current_stop_never_lowered_witness:
  "sorted (stops_evaluated momentum 100 90 120 90 trailing)
   \<and> stops_evaluated momentum 100 90 120 90 trailing = [90, 104, 106, 106]
   \<and> fst (snd (momentum_check_exit MOMENTUM_ATR_STOP_MULT 100 108 3 90)) = 90"
  using current_stop_never_lowered [of momentum 100 90 120 90 trailing]
  by (simp add: sample_defs exit_step_def Let_def)

lemma exit_step_policy_cong:
  assumes "\<And>e p a. check_exit e p a stop_price = check_exit' e p a stop_price"
  shows "exit_step (Some check_exit) entry_price stop_price target_price current_stop b
       = exit_step (Some check_exit') entry_price stop_price target_price current_stop b"
  by (simp add: exit_step_def Let_def assms)

lemma find_exit_loop_policy_cong:
  assumes "\<And>e p a. check_exit e p a stop_price = check_exit' e p a stop_price"
  shows "find_exit_loop (Some check_exit) entry_price stop_price target_price current_stop future
       = find_exit_loop (Some check_exit') entry_price stop_price target_price current_stop future"
proof (induction future arbitrary: current_stop)
  case Nil
  show ?case by simp
next
  case (Cons b future)
  have "exit_step (Some check_exit) entry_price stop_price target_price current_stop b
      = exit_step (Some check_exit') entry_price stop_price target_price current_stop b"
    using assms by (rule exit_step_policy_cong)
  with Cons.IH show ?case by (simp split: sum.splits)
qed

text \<open>
  C5 (as the code has it). On every row where the exit policy is called, its fourth argument
  is the stop price of the entry signal, the same on every row, whatever \<open>current_stop\<close> has
  been raised to.
\<close>

theorem check_exit_gets_original_stop:
  "list_all (passes_stop stop_price)
     (check_exit_calls strategy entry_price stop_price target_price current_stop future)"
proof (induction future arbitrary: current_stop)
  case Nil
  show ?case by simp
next
  case (Cons b future)
  have "fst (exit_step strategy entry_price stop_price target_price current_stop b) = Some args
        \<Longrightarrow> passes_stop stop_price (current_stop, args)" for args
    by (auto simp: exit_step_def passes_stop_def Let_def split: if_splits option.splits prod.splits)
  with Cons.IH show ?case
    by (auto split: prod.splits option.splits sum.splits)
qed

theorem check_exit_gets_original_stop_witness:
  "list_all (passes_stop 90) (check_exit_calls momentum 100 90 120 90 trailing)
   \<and> check_exit_calls momentum 100 90 120 90 trailing
       = [(90, 100, 110, 3, 90), (104, 100, 112, 3, 90), (106, 100, 108, 3, 90),
          (106, 100, 108, 3, 90)]"
  using check_exit_gets_original_stop [of 90 momentum 100 120 90 trailing]
  by (simp add: sample_defs exit_step_def Let_def)

text \<open>
  C5 as stated, that the fourth argument is the current stop of the trade, fails: with the
  momentum strategy, an entry at 100 and a stop at 90, the second call is made with
  \<open>current_stop = 104\<close> and receives 90.
\<close>

theorem check_exit_arg_counterexample:
  "\<not> list_all passes_current_stop (check_exit_calls momentum 100 90 120 90 trailing)"
  by (simp add: sample_defs exit_step_def passes_current_stop_def Let_def)

section \<open>Properties of the trade ledger\<close>

lemmas run_defs = execute_trades_def process_signal_def find_exit_def future_data_def
  exit_step_def calculate_shares_def result0_def py_int_def Let_def

lemma calculate_shares_valid_pre:
  assumes "valid (calculate_shares self entry_price stop_price r)"
  shows "0 < equity self \<and> 0 < stop_price \<and> stop_price < entry_price
         \<and> 1 \<le> shares (calculate_shares self entry_price stop_price r)"
  using assms
  by (auto simp: calculate_shares_def result0_def Let_def split: if_splits)

lemma process_signal_Some:
  assumes "process_signal self df strategy eq row = Some t"
  shows "\<exists>e s g p. entry row = Some e \<and> stop row = Some s \<and> target row = Some g
     \<and> find_exit df (idx row) (e * (1 + slippage_pct self)) s g strategy
         = Some (t_exit_date t, p, t_exit_reason t)
     \<and> t_entry_date t = idx row
     \<and> t_entry_price t = e * (1 + slippage_pct self)
     \<and> t_exit_price t = p * (1 - slippage_pct self)
     \<and> valid (calculate_shares \<lparr>equity = eq, max_position_pct = MAX_POSITION_SIZE_PCT,
                 max_risk_pct = MAX_RISK_PER_TRADE_PCT\<rparr> (e * (1 + slippage_pct self)) s None)
     \<and> t_shares t = shares (calculate_shares \<lparr>equity = eq, max_position_pct = MAX_POSITION_SIZE_PCT,
                 max_risk_pct = MAX_RISK_PER_TRADE_PCT\<rparr> (e * (1 + slippage_pct self)) s None)
     \<and> t_gross_pnl t = of_int (t_shares t) * (t_exit_price t - t_entry_price t)
     \<and> t_commission t = commission self + commission self
     \<and> t_net_pnl t = t_gross_pnl t - t_commission t
     \<and> t_equity_after t = eq + t_net_pnl t"
  using assms
  by (auto simp: process_signal_def Let_def split: option.splits if_splits prod.splits)

lemma execute_loop_all:
  assumes "\<And>eq row t. row \<in> set signals \<Longrightarrow> process_signal self df strategy eq row = Some t \<Longrightarrow> P t"
  shows "\<forall>t \<in> set (execute_loop self df strategy eq signals). P t"
  using assms
proof (induction signals arbitrary: eq)
  case Nil
  show ?case by simp
next
  case (Cons row signals)
  have rest: "\<forall>t \<in> set (execute_loop self df strategy eq' signals). P t" for eq'
  proof (rule Cons.IH)
    fix r eq'' t
    assume "r \<in> set signals" "process_signal self df strategy eq'' r = Some t"
    then show "P t" using Cons.prems [of r eq'' t] by simp
  qed
  show ?case
  proof (cases "process_signal self df strategy eq row")
    case None
    with rest show ?thesis by simp
  next
    case (Some t)
    then have "P t" using Cons.prems [of row eq t] by simp
    with Some rest show ?thesis by simp
  qed
qed

lemma execute_trades_all:
  assumes "\<And>eq row t. row \<in> set df \<Longrightarrow> signal row = 1 \<Longrightarrow>
             process_signal self df strategy eq row = Some t \<Longrightarrow> P t"
  shows "\<forall>t \<in> set (execute_trades self df strategy). P t"
  unfolding execute_trades_def
proof (rule execute_loop_all)
  fix eq row t
  assume "row \<in> set (filter (\<lambda>b. signal b = 1) df)"
    "process_signal self df strategy eq row = Some t"
  then show "P t" using assms [of row eq t] by simp
qed

lemma execute_loop_no_equity:
  "eq \<le> 0 \<Longrightarrow> execute_loop self df strategy eq signals = []"
proof (induction signals)
  case Nil
  show ?case by simp
next
  case (Cons row signals)
  have "process_signal self df strategy eq row = None"
  proof (cases "process_signal self df strategy eq row")
    case None
    then show ?thesis .
  next
    case (Some t)
    from process_signal_Some [OF this] obtain e s where
      "valid (calculate_shares \<lparr>equity = eq, max_position_pct = MAX_POSITION_SIZE_PCT,
                 max_risk_pct = MAX_RISK_PER_TRADE_PCT\<rparr> (e * (1 + slippage_pct self)) s None)"
      by blast
    from calculate_shares_valid_pre [OF this] Cons.prems show ?thesis by simp
  qed
  with Cons show ?case by simp
qed




lemma execute_loop_entry_dates:
  "t \<in> set (execute_loop self df strategy eq signals) \<Longrightarrow> t_entry_date t \<in> idx ` set signals"
proof -
  have "\<forall>t \<in> set (execute_loop self df strategy eq signals). t_entry_date t \<in> idx ` set signals"
  proof (rule execute_loop_all)
    fix row eq' t
    assume "row \<in> set signals" "process_signal self df strategy eq' row = Some t"
    then show "t_entry_date t \<in> idx ` set signals"
      using process_signal_Some [of self df strategy eq' row t] by auto
  qed
  then show "t \<in> set (execute_loop self df strategy eq signals) \<Longrightarrow> t_entry_date t \<in> idx ` set signals"
    by simp
qed


lemma exit_step_signal:
  "exit_step strategy entry_price stop_price target_price current_stop (b\<lparr>signal := v\<rparr>)
   = exit_step strategy entry_price stop_price target_price current_stop b"
  by (simp add: exit_step_def Let_def split: option.splits prod.splits)

lemma find_exit_loop_signal:
  "find_exit_loop strategy entry_price stop_price target_price current_stop
     (map (\<lambda>b. b\<lparr>signal := v\<rparr>) future)
   = find_exit_loop strategy entry_price stop_price target_price current_stop future"
  by (induction future arbitrary: current_stop) (auto simp: exit_step_signal split: sum.splits)

lemma future_data_signal:
  "future_data (map (\<lambda>b. b\<lparr>signal := v\<rparr>) df) i = map (\<lambda>b. b\<lparr>signal := v\<rparr>) (future_data df i)"
  by (simp add: future_data_def dropWhile_map drop_map comp_def)

lemma find_exit_signal:
  "find_exit (map (\<lambda>b. b\<lparr>signal := v\<rparr>) df) i entry_price stop_price target_price strategy
   = find_exit df i entry_price stop_price target_price strategy"
  by (simp add: find_exit_def future_data_signal find_exit_loop_signal)

lemma find_exit_same_prices:
  assumes "map (\<lambda>b. b\<lparr>signal := 0\<rparr>) df' = map (\<lambda>b. b\<lparr>signal := 0\<rparr>) df"
  shows "find_exit df' i entry_price stop_price target_price strategy
       = find_exit df i entry_price stop_price target_price strategy"
  using find_exit_signal [of 0 df' i entry_price stop_price target_price strategy]
    find_exit_signal [of 0 df i entry_price stop_price target_price strategy] assms
  by simp

lemma process_signal_same_prices:
  assumes "map (\<lambda>b. b\<lparr>signal := 0\<rparr>) df' = map (\<lambda>b. b\<lparr>signal := 0\<rparr>) df"
  shows "process_signal self df' strategy eq row = process_signal self df strategy eq row"
  by (simp add: process_signal_def Let_def find_exit_same_prices [OF assms]
        split: option.splits prod.splits)

lemma execute_loop_same_prices:
  assumes "map (\<lambda>b. b\<lparr>signal := 0\<rparr>) df' = map (\<lambda>b. b\<lparr>signal := 0\<rparr>) df"
  shows "execute_loop self df' strategy eq signals = execute_loop self df strategy eq signals"
  by (induction signals arbitrary: eq)
     (auto simp: process_signal_same_prices [OF assms] split: option.splits)

lemma execute_loop_skip:
  assumes "\<And>eq. process_signal self df strategy eq row = None"
  shows "execute_loop self df strategy eq (before @ row # after)
       = execute_loop self df strategy eq (before @ after)"
proof (induction before arbitrary: eq)
  case Nil
  show ?case by (simp add: assms)
next
  case (Cons r before)
  then show ?case by (simp split: option.splits)
qed

lemma process_signal_no_exit:
  assumes "entry row = Some e" "stop row = Some s" "target row = Some g"
    and "find_exit df (idx row) (e * (1 + slippage_pct self)) s g strategy = None"
  shows "process_signal self df strategy eq row = None"
  using assms by (simp add: process_signal_def Let_def)




text \<open>
  C4. A signal row whose trade finds no exit before the table ends leaves nothing behind:
  the ledger, and with it the equity after every trade, the equity curve and the cost
  columns, are those of the same table with the signal of that row cleared; and no record
  of the ledger is entered on that row.
\<close>

theorem unfinished_trade_leaves_no_trace:
  assumes "signal row = 1" "entry row = Some e" "stop row = Some s" "target row = Some g"
    and "find_exit (before @ row # after) (idx row) (e * (1 + slippage_pct self)) s g strategy = None"
  shows "execute_trades self (before @ row # after) strategy
         = execute_trades self (before @ row\<lparr>signal := 0\<rparr> # after) strategy
       \<and> calculate_equity_curve self (execute_trades self (before @ row # after) strategy)
         = calculate_equity_curve self
             (execute_trades self (before @ row\<lparr>signal := 0\<rparr> # after) strategy)
       \<and> (distinct (map idx (before @ row # after)) \<longrightarrow>
            idx row \<notin> t_entry_date ` set (execute_trades self (before @ row # after) strategy))"
proof -
  let ?df = "before @ row # after" and ?df' = "before @ row\<lparr>signal := 0\<rparr> # after"
  let ?sig = "filter (\<lambda>b. signal b = 1)"
  have same: "map (\<lambda>b. b\<lparr>signal := 0\<rparr>) ?df' = map (\<lambda>b. b\<lparr>signal := 0\<rparr>) ?df" by simp
  have none: "process_signal self ?df strategy eq row = None" for eq
    using assms(2-5) by (rule process_signal_no_exit)
  have "execute_trades self ?df strategy
        = execute_loop self ?df strategy (initial_capital self) (?sig before @ row # ?sig after)"
    using assms(1) by (simp add: execute_trades_def)
  also have "\<dots> = execute_loop self ?df strategy (initial_capital self) (?sig before @ ?sig after)"
    using none by (rule execute_loop_skip)
  also have "\<dots> = execute_loop self ?df' strategy (initial_capital self) (?sig before @ ?sig after)"
    using same by (rule execute_loop_same_prices [symmetric])
  also have "\<dots> = execute_trades self ?df' strategy"
    by (simp add: execute_trades_def)
  finally have eq: "execute_trades self ?df strategy = execute_trades self ?df' strategy" .
  have absent: "idx row \<notin> t_entry_date ` set (execute_trades self ?df strategy)"
    if d: "distinct (map idx ?df)"
  proof
    assume "idx row \<in> t_entry_date ` set (execute_trades self ?df strategy)"
    then obtain t where t: "t \<in> set (execute_trades self ?df' strategy)" "t_entry_date t = idx row"
      using eq by auto
    from t(1) have "t_entry_date t \<in> idx ` set (?sig ?df')"
      unfolding execute_trades_def by (rule execute_loop_entry_dates)
    then have "idx row \<in> idx ` (set before \<union> set after)" using t(2) by auto
    with d show False by auto
  qed
  from eq absent show ?thesis by simp
qed

theorem unfinished_trade_leaves_no_trace_witness:
  "signal (signal_bar 0 101 99 100 100 95 110) = 1
   \<and> find_exit ([] @ signal_bar 0 101 99 100 100 95 110
                  # [signal_bar 1 104 98 101 100 95 105, plain_bar 2 106 99 105 None])
         (idx (signal_bar 0 101 99 100 100 95 110))
         (100 * (1 + slippage_pct default_backtester)) 95 110 None = None
   \<and> execute_trades default_backtester never_exits None
       = execute_trades default_backtester
           ([] @ (signal_bar 0 101 99 100 100 95 110)\<lparr>signal := 0\<rparr>
             # [signal_bar 1 104 98 101 100 95 105, plain_bar 2 106 99 105 None]) None
   \<and> map t_entry_date (execute_trades default_backtester never_exits None) = [1]"
proof -
  have f: "find_exit ([] @ signal_bar 0 101 99 100 100 95 110
                  # [signal_bar 1 104 98 101 100 95 105, plain_bar 2 106 99 105 None])
         (idx (signal_bar 0 101 99 100 100 95 110))
         (100 * (1 + slippage_pct default_backtester)) 95 110 None = None"
    by (simp add: sample_defs run_defs)
  have e: "execute_trades default_backtester
       ([] @ signal_bar 0 101 99 100 100 95 110
         # [signal_bar 1 104 98 101 100 95 105, plain_bar 2 106 99 105 None]) None
     = execute_trades default_backtester
       ([] @ (signal_bar 0 101 99 100 100 95 110)\<lparr>signal := 0\<rparr>
         # [signal_bar 1 104 98 101 100 95 105, plain_bar 2 106 99 105 None]) None"
    using unfinished_trade_leaves_no_trace
      [of "signal_bar 0 101 99 100 100 95 110" 100 95 110 "[]"
          "[signal_bar 1 104 98 101 100 95 105, plain_bar 2 106 99 105 None]"
          default_backtester None] f
    by (simp add: signal_bar_def)
  have l: "map t_entry_date (execute_trades default_backtester never_exits None) = [1]"
    by (simp add: sample_defs run_defs)
  from f e l show ?thesis by (simp add: never_exits_def signal_bar_def)
qed

text \<open>
  C8. Every trade of the ledger has \<open>net_pnl = gross_pnl - commission\<close>, with
  \<open>gross_pnl = shares * (exit_price - entry_price)\<close> on the filled prices and a recorded
  commission of twice the commission per trade of the backtester.
\<close>

theorem ledger_pnl_accounting:
  "\<forall>t \<in> set (execute_trades self df strategy).
     t_net_pnl t = t_gross_pnl t - t_commission t
     \<and> t_gross_pnl t = of_int (t_shares t) * (t_exit_price t - t_entry_price t)
     \<and> t_commission t = 2 * commission self"
proof (rule execute_trades_all)
  fix eq row t
  assume "process_signal self df strategy eq row = Some t"
  from process_signal_Some [OF this]
  show "t_net_pnl t = t_gross_pnl t - t_commission t
     \<and> t_gross_pnl t = of_int (t_shares t) * (t_exit_price t - t_entry_price t)
     \<and> t_commission t = 2 * commission self"
    by auto
qed

theorem ledger_pnl_accounting_witness:
  "length (execute_trades default_backtester two_signals None) = 2
   \<and> t_commission (execute_trades default_backtester two_signals None ! 0) = 2 * 1
   \<and> t_net_pnl (execute_trades default_backtester two_signals None ! 0)
       = t_gross_pnl (execute_trades default_backtester two_signals None ! 0)
         - t_commission (execute_trades default_backtester two_signals None ! 0)
   \<and> t_gross_pnl (execute_trades default_backtester two_signals None ! 0)
       = 49 * (10989 / 100 - 1001 / 10)"
  using ledger_pnl_accounting [of default_backtester two_signals None]
  by (simp add: sample_defs run_defs)

text \<open>
  C10 (as the code has it). The constructor stores whatever it is given and raises nothing,
  and the run goes on with those values: a negative commission or slippage enters the
  prices and costs of the trades, and with an initial capital that is not positive every
  signal is refused by the position sizer, so that the ledger is empty.
\<close>

theorem configuration_not_checked:
  "run_on initial_capital' commission' slippage_pct' df strategy
     = Inr (execute_trades \<lparr>initial_capital = initial_capital', commission = commission',
              slippage_pct = slippage_pct'\<rparr> df strategy)
   \<and> (initial_capital' \<le> 0 \<longrightarrow>
        run_on initial_capital' commission' slippage_pct' df strategy = Inr [])"
  by (simp add: run_on_def Backtester_init_def execute_trades_def execute_loop_no_equity)

theorem configuration_not_checked_witness:
  "(0::real) \<le> 0 \<and> run_on 0 (-1) (-0.001) two_signals None = Inr []"
proof -
  have "(0::real) \<le> 0" by simp
  moreover from configuration_not_checked [of 0 "-1" "-0.001" two_signals None]
  have "(0::real) \<le> 0 \<longrightarrow> run_on 0 (-1) (-0.001) two_signals None = Inr []" by (rule conjunct2)
  ultimately show ?thesis by blast
qed

text \<open>
  C10 as stated, that an invalid configuration makes the run fail, fails: with a commission
  of -1 and a slippage of -0.001 the table \<open>two_signals\<close> gives two trades, each with a
  recorded commission of -2.
\<close>

theorem invalid_configuration_counterexample:
  "run_on 25000 (-1) (-0.001) two_signals None
     = Inr (execute_trades \<lparr>initial_capital = 25000, commission = -1, slippage_pct = -0.001\<rparr>
              two_signals None)
   \<and> map t_commission
         (execute_trades \<lparr>initial_capital = 25000, commission = -1, slippage_pct = -0.001\<rparr>
            two_signals None) = [-2, -2]"
  by (simp add: run_on_def Backtester_init_def sample_defs run_defs)

section \<open>Properties of the drawdown\<close>


















lemma max_drawdown_pct_duplicate_labels:
  "max_drawdown_metrics [(0, 100), (2, 50), (2, 40)] = Inr (60, Not_scalar)"
  by (simp add: max_drawdown_metrics_def cummax_def series_minus_def series_max_def idxmax_def
        series_loc_def Let_def)

section \<open>Properties of the risk manager\<close>

lemma check_pre_trade_zero_equity:
  "equity self = 0 \<Longrightarrow>
   check_pre_trade self symbol' entry_price position_value' risk_dollars' current_positions
     liquidity_check = Inl ZeroDivisionError"
  by (simp add: check_pre_trade_def Let_def)



end
